theory Spec2Isabelle
  imports Main
begin

section \<open>JavaScript values, objects and the object store\<close>

text \<open>
  The selectors of \<^verbatim>\<open>src/state/sites/selectors.js\<close> hand out objects whose
  \<^emph>\<open>identity\<close> matters: the cache is a WeakMap keyed by the raw site object itself.
  Objects therefore live in a store; a reference is an address of the store, and two
  references are the same object exactly when the addresses are equal.
  Numbers are modelled as integers (site IDs are integers).
\<close>

datatype jsval =
    JUndefined
  | JNull
  | JBool bool
  | JNum int
  | JStr string
  | JRef nat

text \<open>An object is its dictionary of own enumerable properties.\<close>

type_synonym obj = "string \<rightharpoonup> jsval"

text \<open>Property read \<^verbatim>\<open>o.k\<close>: a missing property reads as \<^verbatim>\<open>undefined\<close>.\<close>

definition field :: "obj \<Rightarrow> string \<Rightarrow> jsval" where
  "field ob k = (case ob k of None \<Rightarrow> JUndefined | Some v \<Rightarrow> v)"

text \<open>
  The process-wide mutable state that \<^verbatim>\<open>getSite\<close> touches: the object store and the
  module-level variable \<^verbatim>\<open>getSiteCache\<close> (a WeakMap from raw site objects to computed
  site objects, both given by their addresses). A new object gets the next address,
  \<open>length (heap w)\<close>, so it differs from every object that exists already.
  Reclamation of WeakMap entries whose key is unreachable is not modelled: a key that
  is looked up is reachable.
\<close>

record world =
  heap :: "obj list"
  getSiteCache :: "nat \<rightharpoonup> nat"

section \<open>The collaborators of getSite\<close>

text \<open>
  \<^verbatim>\<open>getRawSite\<close>, \<^verbatim>\<open>getSiteBySlug\<close>, \<^verbatim>\<open>getSiteComputedAttributes\<close> and
  \<^verbatim>\<open>getJetpackComputedAttributes\<close> are called by \<^verbatim>\<open>getSite\<close> but defined elsewhere:
  they are parameters, pure functions of the state snapshot and their second argument.
  A lookup answers with a raw site object (its address) or with nothing
  (\<^verbatim>\<open>undefined\<close>/\<^verbatim>\<open>null\<close>, here \<open>None\<close>); an attribute provider answers with a
  dictionary of attributes.
\<close>

record 's selectors =
  getRawSite :: "'s \<Rightarrow> jsval \<Rightarrow> nat option"
  getSiteBySlug :: "'s \<Rightarrow> jsval \<Rightarrow> nat option"
  getSiteComputedAttributes :: "'s \<Rightarrow> jsval \<Rightarrow> obj"
  getJetpackComputedAttributes :: "'s \<Rightarrow> jsval \<Rightarrow> obj"

section \<open>getSite and getSite.clearCache\<close>

text \<open>
  \<^verbatim>\<open>getRawSite(state, siteIdOrSlug) || getSiteBySlug(state, siteIdOrSlug)\<close>: an object is
  truthy, so the slug lookup is evaluated only when the ID lookup found nothing.
\<close>

definition rawSiteOf :: "'s selectors \<Rightarrow> 's \<Rightarrow> jsval \<Rightarrow> nat option" where
  "rawSiteOf c state siteIdOrSlug =
     (case getRawSite c state siteIdOrSlug of
        Some rawSite \<Rightarrow> Some rawSite
      | None \<Rightarrow> getSiteBySlug c state siteIdOrSlug)"

text \<open>
  The object literal \<^verbatim>\<open>{ ...rawSite, ...siteAttrs, ...jetpackAttrs }\<close>: the properties are
  copied from left to right, a later source overwriting an earlier one.
\<close>

definition spread3 :: "obj \<Rightarrow> obj \<Rightarrow> obj \<Rightarrow> obj" where
  "spread3 a b c = a ++ b ++ c"

text \<open>
  \<^verbatim>\<open>getSite(state, siteIdOrSlug)\<close> returns its value together with the updated world.
  The three exits of the source are the three branches: \<^verbatim>\<open>null\<close> when nothing
  resolves, the cached object on a hit, and on a miss a new object that is stored in the
  cache under the raw site object.
\<close>

definition getSite :: "'s selectors \<Rightarrow> 's \<Rightarrow> jsval \<Rightarrow> world \<Rightarrow> jsval \<times> world" where
  "getSite c state siteIdOrSlug w =
     (case rawSiteOf c state siteIdOrSlug of
        None \<Rightarrow> (JNull, w)
      | Some rawSite \<Rightarrow>
          (case getSiteCache w rawSite of
             Some cachedSite \<Rightarrow> (JRef cachedSite, w)
           | None \<Rightarrow>
               (let raw = heap w ! rawSite;
                    site = spread3 raw
                             (getSiteComputedAttributes c state (field raw ''ID''))
                             (getJetpackComputedAttributes c state (field raw ''ID''));
                    ref = length (heap w)
                in (JRef ref,
                    w\<lparr>heap := heap w @ [site],
                      getSiteCache := (getSiteCache w)(rawSite \<mapsto> ref)\<rparr>))))"

text \<open>\<^verbatim>\<open>getSite.clearCache = () => { getSiteCache = new WeakMap(); }\<close>\<close>

definition clearCache :: "world \<Rightarrow> world" where
  "clearCache w = w\<lparr>getSiteCache := Map.empty\<rparr>"

section \<open>Media helpers: the data\<close>

text \<open>
  A media argument of \<^verbatim>\<open>getFileExtension\<close> and \<^verbatim>\<open>getMimeType\<close> is a string, a
  \<^verbatim>\<open>window.File\<close>, or a media object; \<^verbatim>\<open>null\<close> and \<^verbatim>\<open>undefined\<close> are \<open>None\<close>.
  The fields of a media object are the ones the source reads. A string-valued field is
  absent (\<open>None\<close>) or holds a string; \<^verbatim>\<open>transient\<close> is kept as its truth value.
  \<^verbatim>\<open>thumbnails\<close> is a plain object: its own properties are a dictionary from size
  names to URLs, and it inherits the properties of \<^verbatim>\<open>Object.prototype\<close>. The field
  \<^verbatim>\<open>file\<close> is named \<open>file_field\<close> here. A pixel width is an integer, and text is
  ASCII.
\<close>

record media =
  transient :: bool
  URL :: "string option"
  thumbnails :: "(string \<rightharpoonup> string) option"
  extension :: "string option"
  file_field :: "string option"
  guid :: "string option"
  mime_type :: "string option"

record file_object =
  name :: string
  type :: string

datatype media_arg =
    MString string
  | MFile file_object
  | MObject media

text \<open>
  The options of \<^verbatim>\<open>url\<close>. \<^verbatim>\<open>photon\<close> is read only by the older copy of the function
  (\<^verbatim>\<open>part_000\<close>). The field \<^verbatim>\<open>size\<close> is named \<open>size_option\<close> here.
\<close>

record options =
  photon :: bool
  maxWidth :: "int option"
  resize :: "string option"
  size_option :: "string option"

text \<open>\<^verbatim>\<open>options = options || {}\<close>: the empty object has none of the fields.\<close>

definition no_options :: options where
  "no_options = \<lparr>photon = False, maxWidth = None, resize = None, size_option = None\<rparr>"

text \<open>The second argument of \<^verbatim>\<open>resize\<close>: \<^verbatim>\<open>{ w: n }\<close> or \<^verbatim>\<open>{ resize: s }\<close>.\<close>

datatype resize_params = W int | Resize string

text \<open>The second argument of \<^verbatim>\<open>photon\<close>: \<^verbatim>\<open>{ width: n }\<close> or \<^verbatim>\<open>{ resize: s }\<close>.\<close>

datatype photon_params = Width int | PhotonResize string

datatype js_error = TypeError

text \<open>
  The functions the module imports from libraries are parameters. For \<^verbatim>\<open>url\<close>:
  \<^item> \<open>resize_image_url\<close>: the default export of \<^verbatim>\<open>../resize-image-url\<close>, called
    \<^verbatim>\<open>resize\<close> in the source;
  \<^item> \<open>photon_url\<close>: the function \<^verbatim>\<open>photon\<close> that \<^verbatim>\<open>part_000\<close> calls, with its
    optional second argument.
\<close>

record url_libs =
  resize_image_url :: "string \<Rightarrow> resize_params \<Rightarrow> string"
  photon_url :: "string \<Rightarrow> photon_params option \<Rightarrow> string"

text \<open>
  For \<^verbatim>\<open>getFileExtension\<close>:
  \<^item> \<open>isUri\<close>: whether \<^verbatim>\<open>isUri(s)\<close> of \<^verbatim>\<open>valid-url\<close> is truthy;
  \<^item> \<open>parse_pathname\<close>: \<^verbatim>\<open>urlLib.parse(s).pathname\<close>, a string or \<^verbatim>\<open>null\<close>;
  \<^item> \<open>extname\<close>: \<^verbatim>\<open>path.extname(p)\<close>, whose argument here is a string or \<^verbatim>\<open>null\<close>
    and which answers with a string or throws.
\<close>

record path_libs =
  isUri :: "string \<Rightarrow> bool"
  parse_pathname :: "string \<Rightarrow> string option"
  extname :: "string option \<Rightarrow> js_error + string"

section \<open>Media helpers: truthiness and strings\<close>

text \<open>A string-valued field is truthy when it is present and not the empty string.\<close>

definition truthy_str :: "string option \<Rightarrow> bool" where
  "truthy_str v = (case v of None \<Rightarrow> False | Some s \<Rightarrow> s \<noteq> [])"

text \<open>A number-valued field is truthy when it is present and not zero.\<close>

definition truthy_num :: "int option \<Rightarrow> bool" where
  "truthy_num v = (case v of None \<Rightarrow> False | Some n \<Rightarrow> n \<noteq> 0)"

text \<open>\<^verbatim>\<open>a || b\<close> where \<open>a\<close> is a string or absent and \<open>b\<close> is a string.\<close>

definition or_str :: "string option \<Rightarrow> string \<Rightarrow> string" where
  "or_str a b = (case a of None \<Rightarrow> b | Some s \<Rightarrow> if s = [] then b else s)"

text \<open>
  The property key that \<^verbatim>\<open>options.size\<close> denotes in \<^verbatim>\<open>options.size in media.thumbnails\<close>:
  an absent size is the key \<^verbatim>\<open>"undefined"\<close>.
\<close>

definition propertyKey :: "string option \<Rightarrow> string" where
  "propertyKey v = (case v of None \<Rightarrow> ''undefined'' | Some s \<Rightarrow> s)"

text \<open>
  The names of the properties that a plain object inherits from \<^verbatim>\<open>Object.prototype\<close>.
  The operator \<^verbatim>\<open>in\<close> and the property read \<^verbatim>\<open>o[key]\<close> both follow the prototype
  chain, so they see these names in every plain object.
\<close>

definition objectPrototypeKeys :: "string list" where
  "objectPrototypeKeys =
     [''constructor'', ''hasOwnProperty'', ''isPrototypeOf'', ''propertyIsEnumerable'',
      ''toLocaleString'', ''toString'', ''valueOf'', ''__proto__'', ''__defineGetter__'',
      ''__defineSetter__'', ''__lookupGetter__'', ''__lookupSetter__'']"

text \<open>
  What \<^verbatim>\<open>url\<close> can return besides \<^verbatim>\<open>undefined\<close>: a string, or the member of
  \<^verbatim>\<open>Object.prototype\<close> of the given name (a function, or the prototype object), which
  is what \<^verbatim>\<open>media.thumbnails[key]\<close> reads when \<open>key\<close> is an inherited name.
\<close>

datatype url_value = Url string | Inherited string

text \<open>
  \<^verbatim>\<open>media.thumbnails && key in media.thumbnails\<close> holds exactly when the result is
  \<open>Some t\<close>, and then \<open>t\<close> is \<^verbatim>\<open>media.thumbnails[key]\<close>: an own property first, an
  inherited one otherwise.
\<close>

definition thumbnail :: "media \<Rightarrow> string \<Rightarrow> url_value option" where
  "thumbnail m key =
     (case thumbnails m of
        None \<Rightarrow> None
      | Some own \<Rightarrow>
          (case own key of
             Some t \<Rightarrow> Some (Url t)
           | None \<Rightarrow> if key \<in> set objectPrototypeKeys then Some (Inherited key) else None))"

text \<open>\<^verbatim>\<open>s.slice(1)\<close>\<close>

definition slice1 :: "string \<Rightarrow> string" where
  "slice1 s = drop 1 s"

text \<open>\<^verbatim>\<open>s.toLowerCase()\<close> on ASCII text: the letters A to Z change, nothing else does.\<close>

definition toLowerChar :: "char \<Rightarrow> char" where
  "toLowerChar ch =
     (case map_of (zip ''ABCDEFGHIJKLMNOPQRSTUVWXYZ'' ''abcdefghijklmnopqrstuvwxyz'') ch of
        None \<Rightarrow> ch
      | Some l \<Rightarrow> l)"

definition toLowerCase :: "string \<Rightarrow> string" where
  "toLowerCase s = map toLowerChar s"

section \<open>url\<close>

text \<open>
  \<^verbatim>\<open>url(media, options)\<close> of \<^verbatim>\<open>part_001\<close>, the copy whose photon branch is commented
  out. \<open>None\<close> is \<^verbatim>\<open>undefined\<close>, and \<open>Url s\<close> is the string \<open>s\<close>. The branches
  stand in the order of the source:
  no media, transient media, unusable URL, thumbnail, maxWidth, resize, raw URL.
\<close>

definition url :: "url_libs \<Rightarrow> media option \<Rightarrow> options option \<Rightarrow> url_value option" where
  "url L media_arg options_arg =
     (case media_arg of
        None \<Rightarrow> None
      | Some m \<Rightarrow>
          if transient m then map_option Url (URL m)
          else if \<not> truthy_str (URL m) then None
          else
            (let opts = (case options_arg of None \<Rightarrow> no_options | Some given \<Rightarrow> given);
                 u = the (URL m)
             in case thumbnail m (propertyKey (size_option opts)) of
                  Some t \<Rightarrow> Some t
                | None \<Rightarrow>
                    if truthy_num (maxWidth opts)
                    then Some (Url (resize_image_url L u (W (the (maxWidth opts)))))
                    else if truthy_str (resize opts)
                    then Some (Url (resize_image_url L u (Resize (the (resize opts)))))
                    else Some (Url u)))"

text \<open>
  \<^verbatim>\<open>url(media, options)\<close> of \<^verbatim>\<open>part_000\<close>, the copy with the photon branch, which
  comes before the thumbnail test.
\<close>

definition url_part_000 :: "url_libs \<Rightarrow> media option \<Rightarrow> options option \<Rightarrow> url_value option" where
  "url_part_000 L media_arg options_arg =
     (case media_arg of
        None \<Rightarrow> None
      | Some m \<Rightarrow>
          if transient m then map_option Url (URL m)
          else if \<not> truthy_str (URL m) then None
          else
            (let opts = (case options_arg of None \<Rightarrow> no_options | Some given \<Rightarrow> given);
                 u = the (URL m)
             in if photon opts
                then (if truthy_num (maxWidth opts)
                      then Some (Url (photon_url L u (Some (Width (the (maxWidth opts))))))
                      else if truthy_str (resize opts)
                      then Some (Url (photon_url L u (Some (PhotonResize (the (resize opts))))))
                      else Some (Url (photon_url L u None)))
                else
                  (case thumbnail m (propertyKey (size_option opts)) of
                     Some t \<Rightarrow> Some t
                   | None \<Rightarrow>
                       if truthy_num (maxWidth opts)
                       then Some (Url (resize_image_url L u (W (the (maxWidth opts)))))
                       else if truthy_str (resize opts)
                       then Some (Url (resize_image_url L u (Resize (the (resize opts)))))
                       else Some (Url u))))"

section \<open>getFileExtension and getMimeType\<close>

text \<open>
  \<^verbatim>\<open>path.extname(p).slice(1)\<close>; a throw of \<^verbatim>\<open>path.extname\<close> is passed on.
\<close>

definition extension_of :: "path_libs \<Rightarrow> string option \<Rightarrow> js_error + string option" where
  "extension_of L p =
     (case extname L p of Inl e \<Rightarrow> Inl e | Inr dotted \<Rightarrow> Inr (Some (slice1 dotted)))"

text \<open>
  \<^verbatim>\<open>getFileExtension(media)\<close>. A falsy argument (absent, or the empty string) gives
  \<^verbatim>\<open>undefined\<close>. Then the four branches of the source: a string (a URI is reduced to its
  pathname, which may be \<^verbatim>\<open>null\<close>), a File, an object with a truthy
  \<^verbatim>\<open>extension\<close>, and any other object. Nowhere is the extension changed in case.
\<close>

fun getFileExtension :: "path_libs \<Rightarrow> media_arg option \<Rightarrow> js_error + string option" where
  "getFileExtension L None = Inr None"
| "getFileExtension L (Some (MString s)) =
     (if s = [] then Inr None
      else extension_of L (if isUri L s then parse_pathname L s else Some s))"
| "getFileExtension L (Some (MFile f)) = extension_of L (Some (name f))"
| "getFileExtension L (Some (MObject m)) =
     (if truthy_str (extension m) then Inr (extension m)
      else
        (let pathname =
               or_str (parse_pathname L (or_str (URL m) (or_str (file_field m) (or_str (guid m) []))))
                 []
         in extension_of L (Some pathname)))"

text \<open>
  The end of \<^verbatim>\<open>getMimeType\<close> (from \<^verbatim>\<open>let extension = getFileExtension(media)\<close> on):
  no extension gives \<^verbatim>\<open>undefined\<close>; otherwise the lowercased extension is looked up
  among the own properties of the table \<^verbatim>\<open>MimeTypes\<close>, which is imported from
  \<^verbatim>\<open>./constants\<close> and is a parameter here.
\<close>

definition mimeTypeByExtension ::
  "path_libs \<Rightarrow> (string \<rightharpoonup> string) \<Rightarrow> media_arg option \<Rightarrow> js_error + string option" where
  "mimeTypeByExtension L MimeTypes media_arg =
     (case getFileExtension L media_arg of
        Inl e \<Rightarrow> Inl e
      | Inr ext \<Rightarrow>
          if \<not> truthy_str ext then Inr None
          else
            (let lower = toLowerCase (the ext)
             in if MimeTypes lower \<noteq> None then Inr (MimeTypes lower) else Inr None))"

text \<open>
  \<^verbatim>\<open>getMimeType(media)\<close>: falsy media, then a truthy \<^verbatim>\<open>mime_type\<close> (only an object has
  the field), then a File (its \<^verbatim>\<open>type\<close>), then the extension.
\<close>

fun getMimeType ::
  "path_libs \<Rightarrow> (string \<rightharpoonup> string) \<Rightarrow> media_arg option \<Rightarrow> js_error + string option" where
  "getMimeType L MimeTypes None = Inr None"
| "getMimeType L MimeTypes (Some (MString s)) =
     (if s = [] then Inr None else mimeTypeByExtension L MimeTypes (Some (MString s)))"
| "getMimeType L MimeTypes (Some (MFile f)) = Inr (Some (type f))"
| "getMimeType L MimeTypes (Some (MObject m)) =
     (if truthy_str (mime_type m) then Inr (mime_type m)
      else mimeTypeByExtension L MimeTypes (Some (MObject m)))"

section \<open>Reading results; the cache invariant\<close>

text \<open>The object a returned value refers to in a world, if it refers to one.\<close>

definition objectOf :: "world \<Rightarrow> jsval \<Rightarrow> obj option" where
  "objectOf w v =
     (case v of
        JRef n \<Rightarrow> if n < length (heap w) then Some (heap w ! n) else None
      | _ \<Rightarrow> None)"

text \<open>Every object the cache holds exists in the store.\<close>

definition cache_in_store :: "world \<Rightarrow> bool" where
  "cache_in_store w = (\<forall>r n. getSiteCache w r = Some n \<longrightarrow> n < length (heap w))"

text \<open>
  Whether \<^verbatim>\<open>getMimeType\<close> answers before it looks at the extension: a media object with
  a truthy \<^verbatim>\<open>mime_type\<close>, or a File.
\<close>

definition declares_mime_type :: "media_arg option \<Rightarrow> bool" where
  "declares_mime_type media_arg =
     (case media_arg of
        Some (MObject m) \<Rightarrow> truthy_str (mime_type m)
      | Some (MFile f) \<Rightarrow> True
      | _ \<Rightarrow> False)"

text \<open>A falsy media argument: absent, or the empty string.\<close>

definition falsy_media :: "media_arg option \<Rightarrow> bool" where
  "falsy_media media_arg = (media_arg = None \<or> media_arg = Some (MString []))"

section \<open>Example data\<close>

text \<open>
  The scenario of the specification: one raw site record with ID 7 and slug
  \<^verbatim>\<open>example\<close> at address 0, computed attributes that override \<^verbatim>\<open>name\<close>, no Jetpack
  attributes, and an empty cache. The state snapshot is the unit value.
\<close>

definition scenario_raw :: obj where
  "scenario_raw =
     [''ID'' \<mapsto> JNum 7, ''slug'' \<mapsto> JStr ''example'', ''name'' \<mapsto> JStr ''Example'']"

definition scenario_selectors :: "unit selectors" where
  "scenario_selectors =
     \<lparr>getRawSite = (\<lambda>_ k. if k = JNum 7 then Some 0 else None),
      getSiteBySlug = (\<lambda>_ k. if k = JStr ''example'' then Some 0 else None),
      getSiteComputedAttributes =
        (\<lambda>_ i. if i = JNum 7 then [''name'' \<mapsto> JStr ''Example Computed''] else Map.empty),
      getJetpackComputedAttributes = (\<lambda>_ _. Map.empty)\<rparr>"

definition scenario_world :: world where
  "scenario_world = \<lparr>heap = [scenario_raw], getSiteCache = Map.empty\<rparr>"

text \<open>The computed site object of the scenario, and the world after it was cached.\<close>

definition scenario_site :: obj where
  "scenario_site = scenario_raw(''name'' \<mapsto> JStr ''Example Computed'')"

definition scenario_cached :: world where
  "scenario_cached = \<lparr>heap = [scenario_raw, scenario_site], getSiteCache = [0 \<mapsto> 1]\<rparr>"

text \<open>
  The same selectors after the attribute providers changed: the computed name is now
  \<^verbatim>\<open>Renamed\<close>.
\<close>

definition scenario_selectors_later :: "unit selectors" where
  "scenario_selectors_later =
     scenario_selectors
       \<lparr>getSiteComputedAttributes :=
          (\<lambda>_ i. if i = JNum 7 then [''name'' \<mapsto> JStr ''Renamed''] else Map.empty)\<rparr>"

text \<open>
  Library functions for the examples. They are given only on the inputs of the examples
  in the docstrings of the source (\<^verbatim>\<open>example.gif\<close> and
  \<^verbatim>\<open>https://wordpress.com/example.gif\<close>, both with extension \<^verbatim>\<open>gif\<close>), on the empty
  string and on \<^verbatim>\<open>null\<close>; on any other input the value is a placeholder.
\<close>

definition docstring_libs :: path_libs where
  "docstring_libs =
     \<lparr>isUri = (\<lambda>s. s = ''https://wordpress.com/example.gif''),
      parse_pathname =
        (\<lambda>s. if s = ''https://wordpress.com/example.gif'' then Some ''/example.gif'' else None),
      extname =
        (\<lambda>p. if p = Some ''example.gif'' \<or> p = Some ''/example.gif'' then Inr ''.gif''
             else if p = None then Inl TypeError
             else Inr [])\<rparr>"

text \<open>
  The one entry of \<^verbatim>\<open>MimeTypes\<close> that the docstring of \<^verbatim>\<open>getMimeType\<close> shows:
  \<^verbatim>\<open>gif\<close> is \<^verbatim>\<open>image/gif\<close>.
\<close>

definition docstring_MimeTypes :: "string \<rightharpoonup> string" where
  "docstring_MimeTypes = [''gif'' \<mapsto> ''image/gif'']"

definition example_media :: media where
  "example_media =
     \<lparr>transient = False, URL = Some ''https://wordpress.com/example.gif'',
      thumbnails = Some [''thumbnail'' \<mapsto> ''https://wordpress.com/example-150x150.gif''],
      extension = None, file_field = None, guid = None, mime_type = None\<rparr>"

text \<open>Options that name a thumbnail size, a maximum width and a resize at once.\<close>

definition example_options :: options where
  "example_options =
     \<lparr>photon = False, maxWidth = Some 100, resize = Some ''50,50'',
      size_option = Some ''thumbnail''\<rparr>"

text \<open>An object that has nothing but the field the example is about.\<close>

definition bare_media :: media where
  "bare_media =
     \<lparr>transient = False, URL = None, thumbnails = None, extension = None,
      file_field = None, guid = None, mime_type = None\<rparr>"

section \<open>Properties of getSite\<close>

subsection \<open>The three exits\<close>

lemma getSite_none:
  assumes "rawSiteOf c state k = None"
  shows "getSite c state k w = (JNull, w)"
  using assms by (simp add: getSite_def)

lemma getSite_hit:
  assumes "rawSiteOf c state k = Some r" and "getSiteCache w r = Some n"
  shows "getSite c state k w = (JRef n, w)"
  using assms by (simp add: getSite_def)

lemma getSite_miss:
  assumes "rawSiteOf c state k = Some r" and "getSiteCache w r = None"
  shows "getSite c state k w =
           (JRef (length (heap w)),
            w\<lparr>heap := heap w @
                 [spread3 (heap w ! r)
                    (getSiteComputedAttributes c state (field (heap w ! r) ''ID''))
                    (getJetpackComputedAttributes c state (field (heap w ! r) ''ID''))],
              getSiteCache := (getSiteCache w)(r \<mapsto> length (heap w))\<rparr>)"
  using assms by (simp add: getSite_def Let_def)

lemma spread3_apply:
  "spread3 a b c key =
     (case c key of
        Some x \<Rightarrow> Some x
      | None \<Rightarrow> (case b key of Some x \<Rightarrow> Some x | None \<Rightarrow> a key))"
  by (simp add: spread3_def map_add_def split: option.splits)

lemma getSite_caches:
  assumes "rawSiteOf c state k = Some r" and "getSite c state k w = (v, w1)"
  shows "\<exists>n. v = JRef n \<and> getSiteCache w1 r = Some n"
proof (cases "getSiteCache w r")
  case None
  from getSite_miss [OF assms(1) None] assms(2) show ?thesis by auto
next
  case (Some n)
  from getSite_hit [OF assms(1) Some] assms(2) show ?thesis using Some by auto
qed

lemma getSite_again:
  assumes "rawSiteOf c state k = Some r" and "getSite c state k w = (v, w1)"
    and "rawSiteOf c' state' k' = Some r"
  shows "getSite c' state' k' w1 = (v, w1)"
proof -
  from getSite_caches [OF assms(1,2)] obtain n
    where "v = JRef n" and "getSiteCache w1 r = Some n" by blast
  with getSite_hit [OF assms(3)] show ?thesis by simp
qed

subsection \<open>The cache invariant is kept\<close>

lemma cache_in_store_empty: "cache_in_store \<lparr>heap = h, getSiteCache = Map.empty\<rparr>"
  by (simp add: cache_in_store_def)

lemma cache_in_store_clearCache: "cache_in_store (clearCache w)"
  by (simp add: cache_in_store_def clearCache_def)

lemma cache_in_store_getSite:
  assumes "cache_in_store w"
  shows "cache_in_store (snd (getSite c state k w))"
proof (cases "rawSiteOf c state k")
  case None
  with assms show ?thesis by (simp add: getSite_none)
next
  case (Some r)
  show ?thesis
  proof (cases "getSiteCache w r")
    case None
    from assms show ?thesis
      unfolding getSite_miss [OF Some None] cache_in_store_def
      by (auto simp: less_Suc_eq)
  next
    case (Some n)
    with \<open>rawSiteOf c state k = Some r\<close> assms show ?thesis
      by (simp add: getSite_hit)
  qed
qed

subsection \<open>Facts about the scenario\<close>

lemma scenario_by_id: "rawSiteOf scenario_selectors () (JNum 7) = Some 0"
  by (simp add: rawSiteOf_def scenario_selectors_def)

lemma scenario_by_slug: "rawSiteOf scenario_selectors () (JStr ''example'') = Some 0"
  by (simp add: rawSiteOf_def scenario_selectors_def)

lemma scenario_unknown: "rawSiteOf scenario_selectors () (JNum 999) = None"
  by (simp add: rawSiteOf_def scenario_selectors_def)

lemma scenario_later_by_id: "rawSiteOf scenario_selectors_later () (JNum 7) = Some 0"
  by (simp add: rawSiteOf_def scenario_selectors_later_def scenario_selectors_def)

lemma scenario_ID: "field scenario_raw ''ID'' = JNum 7"
  by (simp add: scenario_raw_def field_def)

lemma scenario_first_lookup:
  "getSite scenario_selectors () (JNum 7) scenario_world = (JRef 1, scenario_cached)"
proof -
  have "getSiteCache scenario_world 0 = None"
    by (simp add: scenario_world_def)
  from getSite_miss [OF scenario_by_id this] show ?thesis
    by (simp add: scenario_world_def scenario_cached_def scenario_site_def scenario_ID
        scenario_selectors_def spread3_def)
qed

lemma scenario_first_lookup_by_slug:
  "getSite scenario_selectors () (JStr ''example'') scenario_world = (JRef 1, scenario_cached)"
proof -
  have "getSiteCache scenario_world 0 = None"
    by (simp add: scenario_world_def)
  from getSite_miss [OF scenario_by_slug this] show ?thesis
    by (simp add: scenario_world_def scenario_cached_def scenario_site_def scenario_ID
        scenario_selectors_def spread3_def)
qed

lemma scenario_cached_in_store: "cache_in_store scenario_cached"
  by (simp add: cache_in_store_def scenario_cached_def)

subsection \<open>The claims about getSite\<close>

text \<open>
  \<^bold>\<open>C1.\<close> When the ID or slug resolves to a raw site record \<open>R\<close> (an object of the
  store) that has no cache entry, \<^verbatim>\<open>getSite\<close> returns a reference to a new object whose
  properties are those of \<open>R\<close>, overridden by the site-computed attributes of
  \<^verbatim>\<open>R.ID\<close>, overridden by the Jetpack-computed attributes of \<^verbatim>\<open>R.ID\<close>: for every key
  the Jetpack value wins, then the site-computed value, then the raw one.
\<close>

theorem getSite_materializes:
  assumes "rawSiteOf c state k = Some r"
    and "getSiteCache w r = None"
    and "r < length (heap w)"
    and "heap w ! r = R"
    and "getSite c state k w = (v, w')"
  shows "v = JRef (length (heap w)) \<and>
         objectOf w' v =
           Some (R ++ getSiteComputedAttributes c state (field R ''ID'')
                   ++ getJetpackComputedAttributes c state (field R ''ID'')) \<and>
         (\<forall>site key. objectOf w' v = Some site \<longrightarrow>
            site key =
              (case getJetpackComputedAttributes c state (field R ''ID'') key of
                 Some x \<Rightarrow> Some x
               | None \<Rightarrow>
                   (case getSiteComputedAttributes c state (field R ''ID'') key of
                      Some x \<Rightarrow> Some x
                    | None \<Rightarrow> R key)))"
proof -
  let ?A = "getSiteComputedAttributes c state (field R ''ID'')"
  let ?J = "getJetpackComputedAttributes c state (field R ''ID'')"
  from getSite_miss [OF assms(1,2)] assms(4,5)
  have v: "v = JRef (length (heap w))"
    and w': "w' = w\<lparr>heap := heap w @ [spread3 R ?A ?J],
                     getSiteCache := (getSiteCache w)(r \<mapsto> length (heap w))\<rparr>"
    by simp_all
  have ob: "objectOf w' v = Some (spread3 R ?A ?J)"
    by (simp add: v w' objectOf_def)
  show ?thesis
    using v ob spread3_apply [of R ?A ?J] by (auto simp: spread3_def)
qed

theorem getSite_materializes_witness:
  "rawSiteOf scenario_selectors () (JNum 7) = Some 0 \<and>
   getSiteCache scenario_world 0 = None \<and>
   0 < length (heap scenario_world) \<and>
   fst (getSite scenario_selectors () (JNum 7) scenario_world) = JRef 1 \<and>
   map_option (\<lambda>site. (site ''ID'', site ''slug'', site ''name'', site ''other''))
     (objectOf (snd (getSite scenario_selectors () (JNum 7) scenario_world))
        (fst (getSite scenario_selectors () (JNum 7) scenario_world))) =
     Some (Some (JNum 7), Some (JStr ''example''), Some (JStr ''Example Computed''), None)"
proof -
  let ?v = "fst (getSite scenario_selectors () (JNum 7) scenario_world)"
  let ?w' = "snd (getSite scenario_selectors () (JNum 7) scenario_world)"
  have h2: "getSiteCache scenario_world 0 = None"
    and h3: "0 < length (heap scenario_world)"
    and h4: "heap scenario_world ! 0 = scenario_raw"
    and len: "length (heap scenario_world) = 1"
    by (simp_all add: scenario_world_def)
  have run: "getSite scenario_selectors () (JNum 7) scenario_world = (?v, ?w')"
    by simp
  have A: "getSiteComputedAttributes scenario_selectors () (JNum 7) =
             [''name'' \<mapsto> JStr ''Example Computed'']"
    and J: "getJetpackComputedAttributes scenario_selectors () (JNum 7) = Map.empty"
    by (simp_all add: scenario_selectors_def)
  note T = getSite_materializes [OF scenario_by_id h2 h3 h4 run]
  have v: "?v = JRef 1"
    using T [THEN conjunct1] unfolding len .
  have ob: "objectOf ?w' ?v =
              Some (scenario_raw ++ [''name'' \<mapsto> JStr ''Example Computed''] ++ Map.empty)"
    using T [THEN conjunct2, THEN conjunct1] unfolding scenario_ID A J .
  show ?thesis
    unfolding ob using scenario_by_id h2 h3 v by (simp add: scenario_raw_def)
qed

text \<open>
  \<^bold>\<open>C2.\<close> Two lookups in succession with the same state and key, the key resolving to
  a raw record: the second returns the very reference the first returned, and leaves the
  world as the first left it, so nothing is allocated or merged again. The reference is
  the cache entry of the raw record.
\<close>

theorem getSite_reference_stable:
  assumes "rawSiteOf c state k = Some r"
    and "getSite c state k w = (v1, w1)"
    and "getSite c state k w1 = (v2, w2)"
  shows "v2 = v1 \<and> w2 = w1 \<and> (\<exists>n. v1 = JRef n \<and> getSiteCache w1 r = Some n)"
  using getSite_again [OF assms(1,2) assms(1)] getSite_caches [OF assms(1,2)] assms(3)
  by simp

theorem getSite_reference_stable_witness:
  "rawSiteOf scenario_selectors () (JNum 7) = Some 0 \<and>
   getSite scenario_selectors () (JNum 7) scenario_world = (JRef 1, scenario_cached) \<and>
   getSite scenario_selectors () (JNum 7) scenario_cached = (JRef 1, scenario_cached)"
proof -
  have second: "getSite scenario_selectors () (JNum 7) scenario_cached =
                  (fst (getSite scenario_selectors () (JNum 7) scenario_cached),
                   snd (getSite scenario_selectors () (JNum 7) scenario_cached))"
    by simp
  from getSite_reference_stable [OF scenario_by_id scenario_first_lookup second]
  have "getSite scenario_selectors () (JNum 7) scenario_cached = (JRef 1, scenario_cached)"
    by (simp add: prod_eq_iff)
  with scenario_by_id scenario_first_lookup show ?thesis by simp
qed

text \<open>
  \<^bold>\<open>C3.\<close> When the ID lookup answers with a raw record, \<^verbatim>\<open>getSite\<close> returns the
  computed site of that record (the cached one, or a new one that it caches), and the
  slug lookup has no influence. When the ID lookup answers nothing and the slug lookup
  answers with a raw record, \<^verbatim>\<open>getSite\<close> returns the computed site of that record in
  the same way. When neither answers, \<^verbatim>\<open>getSite\<close> returns \<^verbatim>\<open>null\<close> and changes
  nothing. The function has a value on every input and no exit that throws.
\<close>

theorem getSite_resolution_order:
  "(getRawSite c state k = Some r \<longrightarrow>
      rawSiteOf c state k = Some r \<and>
      getSite (c\<lparr>getSiteBySlug := bySlug\<rparr>) state k w = getSite c state k w \<and>
      (getSiteCache w r = Some n \<longrightarrow> getSite c state k w = (JRef n, w)) \<and>
      (getSiteCache w r = None \<longrightarrow>
         getSite c state k w =
           (JRef (length (heap w)),
            w\<lparr>heap := heap w @
                 [heap w ! r
                    ++ getSiteComputedAttributes c state (field (heap w ! r) ''ID'')
                    ++ getJetpackComputedAttributes c state (field (heap w ! r) ''ID'')],
              getSiteCache := (getSiteCache w)(r \<mapsto> length (heap w))\<rparr>))) \<and>
   (getRawSite c state k = None \<and> getSiteBySlug c state k = Some r \<longrightarrow>
      rawSiteOf c state k = Some r \<and>
      (getSiteCache w r = Some n \<longrightarrow> getSite c state k w = (JRef n, w)) \<and>
      (getSiteCache w r = None \<longrightarrow>
         getSite c state k w =
           (JRef (length (heap w)),
            w\<lparr>heap := heap w @
                 [heap w ! r
                    ++ getSiteComputedAttributes c state (field (heap w ! r) ''ID'')
                    ++ getJetpackComputedAttributes c state (field (heap w ! r) ''ID'')],
              getSiteCache := (getSiteCache w)(r \<mapsto> length (heap w))\<rparr>))) \<and>
   (getRawSite c state k = None \<and> getSiteBySlug c state k = None \<longrightarrow>
      rawSiteOf c state k = None \<and> getSite c state k w = (JNull, w))"
proof -
  have resolved:
    "(getSiteCache w r = Some n \<longrightarrow> getSite c state k w = (JRef n, w)) \<and>
     (getSiteCache w r = None \<longrightarrow>
        getSite c state k w =
          (JRef (length (heap w)),
           w\<lparr>heap := heap w @
                [heap w ! r
                   ++ getSiteComputedAttributes c state (field (heap w ! r) ''ID'')
                   ++ getJetpackComputedAttributes c state (field (heap w ! r) ''ID'')],
             getSiteCache := (getSiteCache w)(r \<mapsto> length (heap w))\<rparr>))"
    if "rawSiteOf c state k = Some r"
    using getSite_hit [OF that] getSite_miss [OF that] by (simp add: spread3_def)
  have by_id: "rawSiteOf c state k = Some r" if "getRawSite c state k = Some r"
    using that by (simp add: rawSiteOf_def)
  have by_slug: "rawSiteOf c state k = Some r"
    if "getRawSite c state k = None" and "getSiteBySlug c state k = Some r"
    using that by (simp add: rawSiteOf_def)
  have neither: "rawSiteOf c state k = None"
    if "getRawSite c state k = None" and "getSiteBySlug c state k = None"
    using that by (simp add: rawSiteOf_def)
  have independent: "getSite (c\<lparr>getSiteBySlug := bySlug\<rparr>) state k w = getSite c state k w"
    if "getRawSite c state k = Some r"
    using that by (simp add: getSite_def rawSiteOf_def Let_def split: option.splits)
  show ?thesis
    using resolved by_id by_slug neither independent getSite_none [of c state k w]
    by blast
qed

theorem getSite_resolution_order_witness:
  "getRawSite (scenario_selectors\<lparr>getSiteBySlug := (\<lambda>_ _. Some 5)\<rparr>) () (JNum 7) = Some 0 \<and>
   getSiteBySlug (scenario_selectors\<lparr>getSiteBySlug := (\<lambda>_ _. Some 5)\<rparr>) () (JNum 7) = Some 5 \<and>
   getSite (scenario_selectors\<lparr>getSiteBySlug := (\<lambda>_ _. Some 5)\<rparr>) () (JNum 7) scenario_world =
     (JRef 1, scenario_cached) \<and>
   getRawSite scenario_selectors () (JStr ''example'') = None \<and>
   getSiteBySlug scenario_selectors () (JStr ''example'') = Some 0 \<and>
   getSite scenario_selectors () (JStr ''example'') scenario_world = (JRef 1, scenario_cached) \<and>
   getSite scenario_selectors () (JStr ''example'') scenario_cached = (JRef 1, scenario_cached) \<and>
   getRawSite scenario_selectors () (JNum 999) = None \<and>
   getSiteBySlug scenario_selectors () (JNum 999) = None \<and>
   getSite scenario_selectors () (JNum 999) scenario_world = (JNull, scenario_world)"
proof -
  let ?c = "scenario_selectors\<lparr>getSiteBySlug := (\<lambda>_ _. Some 5)\<rparr>"
  have a: "getRawSite ?c () (JNum 7) = Some 0"
    and a': "getSiteBySlug ?c () (JNum 7) = Some 5"
    and b: "getRawSite scenario_selectors () (JStr ''example'') = None"
    and b': "getSiteBySlug scenario_selectors () (JStr ''example'') = Some 0"
    and c: "getRawSite scenario_selectors () (JNum 999) = None"
    and c': "getSiteBySlug scenario_selectors () (JNum 999) = None"
    by (simp_all add: scenario_selectors_def)
  have miss: "getSiteCache scenario_world 0 = None"
    and hit: "getSiteCache scenario_cached 0 = Some 1"
    by (simp_all add: scenario_world_def scenario_cached_def)
  have A: "getSiteComputedAttributes ?c () (JNum 7) = [''name'' \<mapsto> JStr ''Example Computed'']"
    "getSiteComputedAttributes scenario_selectors () (JNum 7) =
       [''name'' \<mapsto> JStr ''Example Computed'']"
    and J: "getJetpackComputedAttributes ?c () (JNum 7) = Map.empty"
    "getJetpackComputedAttributes scenario_selectors () (JNum 7) = Map.empty"
    by (simp_all add: scenario_selectors_def)
  have raw: "heap scenario_world ! 0 = scenario_raw"
    by (simp add: scenario_world_def)
  have after: "scenario_world
      \<lparr>heap := heap scenario_world @
         [scenario_raw ++ [''name'' \<mapsto> JStr ''Example Computed''] ++ Map.empty],
       getSiteCache := (getSiteCache scenario_world)(0 \<mapsto> length (heap scenario_world))\<rparr> =
      scenario_cached"
    by (simp add: scenario_world_def scenario_cached_def scenario_site_def)
  note T1 = getSite_resolution_order
    [where c = ?c and state = "()" and k = "JNum 7" and r = 0 and w = scenario_world]
  note T2 = getSite_resolution_order
    [where c = scenario_selectors and state = "()" and k = "JStr ''example''" and r = 0
      and w = scenario_world]
  note T2' = getSite_resolution_order
    [where c = scenario_selectors and state = "()" and k = "JStr ''example''" and r = 0
      and w = scenario_cached and n = 1]
  note T3 = getSite_resolution_order
    [where c = scenario_selectors and state = "()" and k = "JNum 999" and w = scenario_world]
  have len: "length (heap scenario_world) = 1"
    by (simp add: scenario_world_def)
  from T1 a miss
  have "getSite ?c () (JNum 7) scenario_world =
      (JRef (length (heap scenario_world)),
       scenario_world
        \<lparr>heap := heap scenario_world @
           [heap scenario_world ! 0
              ++ getSiteComputedAttributes ?c () (field (heap scenario_world ! 0) ''ID'')
              ++ getJetpackComputedAttributes ?c () (field (heap scenario_world ! 0) ''ID'')],
         getSiteCache := (getSiteCache scenario_world)(0 \<mapsto> length (heap scenario_world))\<rparr>)"
    by blast
  then have r1: "getSite ?c () (JNum 7) scenario_world = (JRef 1, scenario_cached)"
    unfolding raw scenario_ID A J after by (simp add: len)
  from T2 b b' miss
  have "getSite scenario_selectors () (JStr ''example'') scenario_world =
      (JRef (length (heap scenario_world)),
       scenario_world
        \<lparr>heap := heap scenario_world @
           [heap scenario_world ! 0
              ++ getSiteComputedAttributes scenario_selectors ()
                   (field (heap scenario_world ! 0) ''ID'')
              ++ getJetpackComputedAttributes scenario_selectors ()
                   (field (heap scenario_world ! 0) ''ID'')],
         getSiteCache := (getSiteCache scenario_world)(0 \<mapsto> length (heap scenario_world))\<rparr>)"
    by blast
  then have r2: "getSite scenario_selectors () (JStr ''example'') scenario_world =
      (JRef 1, scenario_cached)"
    unfolding raw scenario_ID A J after by (simp add: len)
  from T2' b b' hit
  have r2': "getSite scenario_selectors () (JStr ''example'') scenario_cached =
      (JRef 1, scenario_cached)"
    by blast
  from T3 c c'
  have r3: "getSite scenario_selectors () (JNum 999) scenario_world = (JNull, scenario_world)"
    by blast
  from a a' b b' c c' r1 r2 r2' r3 show ?thesis by blast
qed

text \<open>
  \<^bold>\<open>C4.\<close> When the ID or slug resolves to nothing, \<^verbatim>\<open>getSite\<close> returns \<^verbatim>\<open>null\<close> and
  the world, so in particular the cache, is exactly what it was.
\<close>

theorem getSite_unresolved_keeps_cache:
  assumes "rawSiteOf c state k = None"
  shows "fst (getSite c state k w) = JNull \<and>
         getSiteCache (snd (getSite c state k w)) = getSiteCache w \<and>
         snd (getSite c state k w) = w"
  by (simp add: getSite_none [OF assms])

theorem getSite_unresolved_keeps_cache_witness:
  "rawSiteOf scenario_selectors () (JNum 999) = None \<and>
   fst (getSite scenario_selectors () (JNum 999) scenario_cached) = JNull \<and>
   getSiteCache (snd (getSite scenario_selectors () (JNum 999) scenario_cached)) = [0 \<mapsto> 1] \<and>
   snd (getSite scenario_selectors () (JNum 999) scenario_cached) = scenario_cached"
proof -
  have "getSiteCache scenario_cached = [0 \<mapsto> 1]"
    by (simp add: scenario_cached_def)
  with getSite_unresolved_keeps_cache [OF scenario_unknown, of scenario_cached]
    scenario_unknown
  show ?thesis by simp
qed

text \<open>
  \<^bold>\<open>C5.\<close> \<^verbatim>\<open>clearCache\<close> leaves an empty cache and the store untouched; it is a total
  function of the world and returns nothing else. For a raw record that was cached
  (a lookup before the clear returns the cached object \<open>old\<close>), the next lookup after
  the clear, whatever the state and the attribute providers are by then, allocates a new
  object, different from \<open>old\<close>, holding the merge computed anew, and caches it.
\<close>

theorem clearCache_forces_recomputation:
  assumes "cache_in_store w"
    and "getSiteCache w r = Some old"
    and "rawSiteOf c state k = Some r"
    and "rawSiteOf c' state' k' = Some r"
    and "getSite c' state' k' (clearCache w) = (v, w')"
  shows "getSiteCache (clearCache w) = Map.empty \<and>
         heap (clearCache w) = heap w \<and>
         getSite c state k w = (JRef old, w) \<and>
         v = JRef (length (heap w)) \<and>
         v \<noteq> JRef old \<and>
         objectOf w' v =
           Some (heap w ! r
                   ++ getSiteComputedAttributes c' state' (field (heap w ! r) ''ID'')
                   ++ getJetpackComputedAttributes c' state' (field (heap w ! r) ''ID'')) \<and>
         getSiteCache w' = [r \<mapsto> length (heap w)]"
proof -
  have empty: "getSiteCache (clearCache w) r = None" and h: "heap (clearCache w) = heap w"
    by (simp_all add: clearCache_def)
  from assms(1,2) have old: "old < length (heap w)"
    by (simp add: cache_in_store_def)
  from getSite_miss [OF assms(4) empty] assms(5)
  have v: "v = JRef (length (heap w))"
    and w': "w' = (clearCache w)\<lparr>heap := heap w @
                 [spread3 (heap w ! r)
                    (getSiteComputedAttributes c' state' (field (heap w ! r) ''ID''))
                    (getJetpackComputedAttributes c' state' (field (heap w ! r) ''ID''))],
              getSiteCache := (getSiteCache (clearCache w))(r \<mapsto> length (heap w))\<rparr>"
    by (simp_all add: h)
  have "objectOf w' v =
           Some (spread3 (heap w ! r)
                    (getSiteComputedAttributes c' state' (field (heap w ! r) ''ID''))
                    (getJetpackComputedAttributes c' state' (field (heap w ! r) ''ID'')))"
    by (simp add: v w' objectOf_def)
  moreover have "getSiteCache w' = [r \<mapsto> length (heap w)]"
    by (simp add: w' clearCache_def)
  ultimately show ?thesis
    using v old getSite_hit [OF assms(3,2)] by (simp add: clearCache_def spread3_def)
qed

theorem clearCache_forces_recomputation_witness:
  "cache_in_store scenario_cached \<and>
   getSiteCache scenario_cached 0 = Some 1 \<and>
   getSite scenario_selectors () (JNum 7) scenario_cached = (JRef 1, scenario_cached) \<and>
   getSiteCache (clearCache scenario_cached) = Map.empty \<and>
   fst (getSite scenario_selectors_later () (JNum 7) (clearCache scenario_cached)) = JRef 2 \<and>
   map_option (\<lambda>site. (site ''ID'', site ''slug'', site ''name''))
     (objectOf (snd (getSite scenario_selectors_later () (JNum 7) (clearCache scenario_cached)))
        (fst (getSite scenario_selectors_later () (JNum 7) (clearCache scenario_cached)))) =
     Some (Some (JNum 7), Some (JStr ''example''), Some (JStr ''Renamed''))"
proof -
  let ?v = "fst (getSite scenario_selectors_later () (JNum 7) (clearCache scenario_cached))"
  let ?w' = "snd (getSite scenario_selectors_later () (JNum 7) (clearCache scenario_cached))"
  have cached: "getSiteCache scenario_cached 0 = Some 1"
    and len: "length (heap scenario_cached) = 2"
    and raw: "heap scenario_cached ! 0 = scenario_raw"
    by (simp_all add: scenario_cached_def)
  have A: "getSiteComputedAttributes scenario_selectors_later () (JNum 7) =
             [''name'' \<mapsto> JStr ''Renamed'']"
    and J: "getJetpackComputedAttributes scenario_selectors_later () (JNum 7) = Map.empty"
    by (simp_all add: scenario_selectors_later_def scenario_selectors_def)
  have run: "getSite scenario_selectors_later () (JNum 7) (clearCache scenario_cached) = (?v, ?w')"
    by simp
  note T = clearCache_forces_recomputation
    [OF scenario_cached_in_store cached scenario_by_id scenario_later_by_id run]
  have t1: "getSiteCache (clearCache scenario_cached) = Map.empty"
    using T by blast
  have t2: "getSite scenario_selectors () (JNum 7) scenario_cached = (JRef 1, scenario_cached)"
    using T by blast
  have t3: "?v = JRef 2"
    using T unfolding len by blast
  have t4: "objectOf ?w' ?v = Some (scenario_raw ++ [''name'' \<mapsto> JStr ''Renamed''] ++ Map.empty)"
    using T unfolding raw scenario_ID A J by blast
  show ?thesis
    unfolding t4 using scenario_cached_in_store cached t1 t2 t3
    by (simp add: scenario_raw_def)
qed

text \<open>
  \<^bold>\<open>C6.\<close> When a numeric ID and a slug resolve to the same raw record object, a lookup
  by one followed by a lookup by the other returns the same reference, in either order,
  and the second lookup changes nothing: the reference is the cache entry under the raw
  record's address.
\<close>

theorem getSite_id_and_slug_share:
  assumes "rawSiteOf c state (JNum i) = Some r"
    and "rawSiteOf c state (JStr slug) = Some r"
  shows "(getSite c state (JNum i) w = (v, w1) \<longrightarrow>
            getSite c state (JStr slug) w1 = (v, w1) \<and>
            (\<exists>n. v = JRef n \<and> getSiteCache w1 r = Some n)) \<and>
         (getSite c state (JStr slug) w = (v, w1) \<longrightarrow>
            getSite c state (JNum i) w1 = (v, w1) \<and>
            (\<exists>n. v = JRef n \<and> getSiteCache w1 r = Some n))"
  using getSite_again [OF assms(1) _ assms(2)] getSite_again [OF assms(2) _ assms(1)]
    getSite_caches [OF assms(1)] getSite_caches [OF assms(2)]
  by blast

theorem getSite_id_and_slug_share_witness:
  "rawSiteOf scenario_selectors () (JNum 7) = Some 0 \<and>
   rawSiteOf scenario_selectors () (JStr ''example'') = Some 0 \<and>
   getSite scenario_selectors () (JNum 7) scenario_world = (JRef 1, scenario_cached) \<and>
   getSite scenario_selectors () (JStr ''example'') scenario_cached = (JRef 1, scenario_cached) \<and>
   getSite scenario_selectors () (JStr ''example'') scenario_world = (JRef 1, scenario_cached) \<and>
   getSite scenario_selectors () (JNum 7) scenario_cached = (JRef 1, scenario_cached)"
proof -
  note T = getSite_id_and_slug_share [OF scenario_by_id scenario_by_slug,
      of scenario_world "JRef 1" scenario_cached]
  from T scenario_first_lookup
  have "getSite scenario_selectors () (JStr ''example'') scenario_cached = (JRef 1, scenario_cached)"
    by blast
  moreover from T scenario_first_lookup_by_slug
  have "getSite scenario_selectors () (JNum 7) scenario_cached = (JRef 1, scenario_cached)"
    by blast
  ultimately show ?thesis
    using scenario_by_id scenario_by_slug scenario_first_lookup scenario_first_lookup_by_slug
    by simp
qed

section \<open>Properties of the media helpers\<close>

subsection \<open>Lowercasing, and when the extension is undefined\<close>

lemma toLowerCase_GIF: "toLowerCase ''GIF'' = ''gif''"
  by (simp add: toLowerCase_def toLowerChar_def)

lemma toLowerCase_foo: "toLowerCase ''foo'' = ''foo''"
  by (simp add: toLowerCase_def toLowerChar_def)

lemma toLowerCase_gif: "toLowerCase ''gif'' = ''gif''"
  by (simp add: toLowerCase_def toLowerChar_def)

lemma extension_of_cases:
  "extension_of L p = Inr x \<Longrightarrow> x \<noteq> None"
  by (auto simp: extension_of_def split: sum.splits)

lemma getFileExtension_undefined_iff:
  "getFileExtension L media = Inr None \<longleftrightarrow> falsy_media media"
proof (cases media)
  case None
  then show ?thesis by (simp add: falsy_media_def)
next
  case (Some a)
  show ?thesis
  proof (cases a)
    case (MString s)
    with Some show ?thesis
      by (auto simp: falsy_media_def dest: extension_of_cases)
  next
    case (MFile f)
    with Some show ?thesis
      by (auto simp: falsy_media_def dest: extension_of_cases)
  next
    case (MObject m)
    with Some show ?thesis
      by (auto simp: falsy_media_def truthy_str_def Let_def dest: extension_of_cases
          split: option.splits)
  qed
qed

lemma mimeTypeByExtension_result:
  assumes "getFileExtension L media = Inr ext"
  shows "mimeTypeByExtension L T media =
           Inr (case ext of None \<Rightarrow> None | Some e \<Rightarrow> if e = [] then None else T (toLowerCase e))"
  using assms by (auto simp: mimeTypeByExtension_def truthy_str_def Let_def split: option.splits)

lemma getMimeType_undeclared:
  assumes "\<not> declares_mime_type media"
  shows "getMimeType L T media =
           (if falsy_media media then Inr None else mimeTypeByExtension L T media)"
proof (cases media)
  case None
  then show ?thesis by (simp add: falsy_media_def)
next
  case (Some a)
  with assms show ?thesis
    by (cases a) (auto simp: falsy_media_def declares_mime_type_def)
qed

subsection \<open>Facts about the examples\<close>

lemma example_media_usable:
  "\<not> transient example_media"
  "URL example_media = Some ''https://wordpress.com/example.gif''"
  "''https://wordpress.com/example.gif'' \<noteq> []"
  by (simp_all add: example_media_def)

lemma docstring_extname:
  "extname docstring_libs (Some ''example.gif'') = Inr ''.gif''"
  "extname docstring_libs (Some ''/example.gif'') = Inr ''.gif''"
  "extname docstring_libs (Some []) = Inr []"
  by (simp_all add: docstring_libs_def)

lemma docstring_isUri:
  "\<not> isUri docstring_libs ''example.gif''"
  "isUri docstring_libs ''https://wordpress.com/example.gif''"
  by (simp_all add: docstring_libs_def)

lemma docstring_pathname:
  "parse_pathname docstring_libs ''https://wordpress.com/example.gif'' = Some ''/example.gif''"
  "parse_pathname docstring_libs [] = None"
  by (simp_all add: docstring_libs_def)

subsection \<open>The claims about url\<close>

text \<open>
  The order of the branches of \<^verbatim>\<open>url\<close>, for media that is not transient and has a
  usable URL, and options without \<^verbatim>\<open>photon\<close>: what
  \<^verbatim>\<open>options.size in media.thumbnails\<close> finds is returned whatever \<^verbatim>\<open>maxWidth\<close> and
  \<^verbatim>\<open>resize\<close> are; when it finds nothing a truthy \<^verbatim>\<open>maxWidth\<close> gives the width resize
  whatever \<^verbatim>\<open>resize\<close> is; without that a truthy \<^verbatim>\<open>resize\<close> gives the named resize;
  otherwise the raw URL is returned. Missing options are empty options, both copies of
  the function agree, and the result is \<^verbatim>\<open>undefined\<close> when the media is absent or has
  no URL.
\<close>

lemma url_branch_order:
  assumes "\<not> transient m" and "URL m = Some u" and "u \<noteq> []" and "\<not> photon opts"
  shows "(thumbnail m (propertyKey (size_option opts)) = Some t \<longrightarrow>
            url L (Some m) (Some opts) = Some t) \<and>
         (thumbnail m (propertyKey (size_option opts)) = None \<and>
          maxWidth opts = Some n \<and> n \<noteq> 0 \<longrightarrow>
            url L (Some m) (Some opts) = Some (Url (resize_image_url L u (W n)))) \<and>
         (thumbnail m (propertyKey (size_option opts)) = None \<and>
          \<not> truthy_num (maxWidth opts) \<and> resize opts = Some s \<and> s \<noteq> [] \<longrightarrow>
            url L (Some m) (Some opts) = Some (Url (resize_image_url L u (Resize s)))) \<and>
         (thumbnail m (propertyKey (size_option opts)) = None \<and>
          \<not> truthy_num (maxWidth opts) \<and> \<not> truthy_str (resize opts) \<longrightarrow>
            url L (Some m) (Some opts) = Some (Url u)) \<and>
         url L (Some m) None = url L (Some m) (Some no_options) \<and>
         url_part_000 L (Some m) (Some opts) = url L (Some m) (Some opts) \<and>
         url_part_000 L (Some m) None = url L (Some m) None \<and>
         url L None given = None \<and>
         url_part_000 L None given = None \<and>
         (URL m' = None \<longrightarrow>
            url L (Some m') given = None \<and> url_part_000 L (Some m') given = None)"
proof -
  have tu: "truthy_str (URL m)"
    using assms(2,3) by (simp add: truthy_str_def)
  have absent: "URL m' = None \<longrightarrow>
            url L (Some m') given = None \<and> url_part_000 L (Some m') given = None"
    by (simp add: url_def url_part_000_def truthy_str_def)
  have same: "url_part_000 L (Some m) (Some opts) = url L (Some m) (Some opts)"
    and same': "url_part_000 L (Some m) None = url L (Some m) None"
    using assms(4) by (simp_all add: url_def url_part_000_def no_options_def)
  show ?thesis
    using assms(1,2) tu absent same same'
    by (simp add: url_def url_part_000_def truthy_num_def truthy_str_def)
qed

text \<open>
  A size that names an own property of \<^verbatim>\<open>media.thumbnails\<close> gives that thumbnail; a
  size that names neither an own nor an inherited property gives none.
\<close>

lemma thumbnail_own:
  assumes "thumbnails m = Some own" and "own key = Some t"
  shows "thumbnail m key = Some (Url t)"
  using assms by (simp add: thumbnail_def)

lemma thumbnail_none:
  assumes "thumbnails m = Some own" and "own key = None" and "key \<notin> set objectPrototypeKeys"
  shows "thumbnail m key = None"
  using assms by (simp add: thumbnail_def)

lemma example_thumbnails:
  "thumbnail example_media ''thumbnail'' = Some (Url ''https://wordpress.com/example-150x150.gif'')"
  "thumbnail example_media ''large'' = None"
  "thumbnail example_media ''undefined'' = None"
  "thumbnail example_media ''constructor'' = Some (Inherited ''constructor'')"
  by (simp_all add: thumbnail_def example_media_def objectPrototypeKeys_def)

text \<open>The branches on the example media, with sizes that name no inherited property.\<close>

lemma url_branch_order_example:
  "url L (Some example_media) (Some example_options) =
     Some (Url ''https://wordpress.com/example-150x150.gif'') \<and>
   url L (Some example_media) (Some (example_options\<lparr>size_option := Some ''large''\<rparr>)) =
     Some (Url (resize_image_url L ''https://wordpress.com/example.gif'' (W 100))) \<and>
   url L (Some example_media) (Some (example_options\<lparr>size_option := None, maxWidth := None\<rparr>)) =
     Some (Url (resize_image_url L ''https://wordpress.com/example.gif'' (Resize ''50,50''))) \<and>
   url L (Some example_media) (Some no_options) = Some (Url ''https://wordpress.com/example.gif'') \<and>
   url L (Some example_media) None = Some (Url ''https://wordpress.com/example.gif'') \<and>
   url L None (Some example_options) = None \<and>
   url L (Some bare_media) (Some example_options) = None"
proof -
  let ?u = "''https://wordpress.com/example.gif''"
  let ?o2 = "example_options\<lparr>size_option := Some ''large''\<rparr>"
  let ?o3 = "example_options\<lparr>size_option := None, maxWidth := None\<rparr>"
  have np: "\<not> photon example_options" "\<not> photon ?o2" "\<not> photon ?o3" "\<not> photon no_options"
    by (simp_all add: example_options_def no_options_def)
  note T1 = url_branch_order [where L = L and n = 100 and s = "''50,50''"
        and t = "Url ''https://wordpress.com/example-150x150.gif''"
        and given = "Some example_options" and m' = bare_media,
      OF example_media_usable np(1)]
  note T2 = url_branch_order [where L = L and n = 100 and s = "''50,50''"
        and given = "Some example_options" and m' = bare_media,
      OF example_media_usable np(2)]
  note T3 = url_branch_order [where L = L and n = 100 and s = "''50,50''"
        and given = "Some example_options" and m' = bare_media,
      OF example_media_usable np(3)]
  note T4 = url_branch_order [where L = L and n = 100 and s = "''50,50''"
        and given = "Some example_options" and m' = bare_media,
      OF example_media_usable np(4)]
  have th1: "thumbnail example_media (propertyKey (size_option example_options)) =
               Some (Url ''https://wordpress.com/example-150x150.gif'')"
    and th2: "thumbnail example_media (propertyKey (size_option ?o2)) = None"
    and th3: "thumbnail example_media (propertyKey (size_option ?o3)) = None"
    and th4: "thumbnail example_media (propertyKey (size_option no_options)) = None"
    by (simp_all add: example_thumbnails propertyKey_def example_options_def no_options_def)
  have c1: "url L (Some example_media) (Some example_options) =
              Some (Url ''https://wordpress.com/example-150x150.gif'')"
    using T1 th1 by blast
  have "maxWidth ?o2 = Some 100"
    by (simp add: example_options_def)
  with T2 th2
  have c2: "url L (Some example_media) (Some ?o2) = Some (Url (resize_image_url L ?u (W 100)))"
    by simp
  have "\<not> truthy_num (maxWidth ?o3)" and "resize ?o3 = Some ''50,50''"
    by (simp_all add: example_options_def truthy_num_def)
  with T3 th3
  have c3: "url L (Some example_media) (Some ?o3) =
              Some (Url (resize_image_url L ?u (Resize ''50,50'')))"
    by simp
  have "\<not> truthy_num (maxWidth no_options)" and "\<not> truthy_str (resize no_options)"
    by (simp_all add: no_options_def truthy_num_def truthy_str_def)
  with T4 th4 have c4: "url L (Some example_media) (Some no_options) = Some (Url ?u)"
    by simp
  have c5: "url L (Some example_media) None = Some (Url ?u)"
    using T4 c4 by simp
  have c6: "url L None (Some example_options) = None"
    using T1 by blast
  have "URL bare_media = None"
    by (simp add: bare_media_def)
  with T1 have c7: "url L (Some bare_media) (Some example_options) = None"
    by blast
  from c1 c2 c3 c4 c5 c6 c7 show ?thesis by blast
qed

text \<open>
  \<^bold>\<open>C7\<close> says that a named thumbnail matching \<^verbatim>\<open>options.size\<close> wins over a max-width
  resize, which wins over a named resize, which wins over the raw URL. The code tests
  \<^verbatim>\<open>options.size in media.thumbnails\<close>, which also holds for a name that every object
  inherits. The example media has the single thumbnail \<^verbatim>\<open>thumbnail\<close>. With the options
  \<^verbatim>\<open>{ size: 'constructor', maxWidth: 100, resize: '50,50' }\<close> no thumbnail matches the
  size, so the claim asks for the width resize; both copies of \<^verbatim>\<open>url\<close> return the
  inherited member \<^verbatim>\<open>constructor\<close> instead, which is not even a string, and never call
  \<^verbatim>\<open>resize\<close>.
\<close>

theorem url_inherited_size_name:
  "\<forall>L.
     thumbnails example_media =
       Some [''thumbnail'' \<mapsto> ''https://wordpress.com/example-150x150.gif''] \<and>
     maxWidth (example_options\<lparr>size_option := Some ''constructor''\<rparr>) = Some 100 \<and>
     url L (Some example_media) (Some (example_options\<lparr>size_option := Some ''constructor''\<rparr>)) =
       Some (Inherited ''constructor'') \<and>
     url_part_000 L (Some example_media)
       (Some (example_options\<lparr>size_option := Some ''constructor''\<rparr>)) =
       Some (Inherited ''constructor'') \<and>
     url L (Some example_media) (Some (example_options\<lparr>size_option := Some ''constructor''\<rparr>)) \<noteq>
       Some (Url (resize_image_url L ''https://wordpress.com/example.gif'' (W 100)))"
proof
  fix L
  let ?o = "example_options\<lparr>size_option := Some ''constructor''\<rparr>"
  have np: "\<not> photon ?o"
    by (simp add: example_options_def)
  have th: "thumbnail example_media (propertyKey (size_option ?o)) = Some (Inherited ''constructor'')"
    by (simp add: example_thumbnails propertyKey_def)
  note T = url_branch_order [where L = L and t = "Inherited ''constructor''",
      OF example_media_usable np]
  have a: "url L (Some example_media) (Some ?o) = Some (Inherited ''constructor'')"
    using T th by blast
  have b: "url_part_000 L (Some example_media) (Some ?o) = Some (Inherited ''constructor'')"
    using T a by simp
  have c: "thumbnails example_media =
             Some [''thumbnail'' \<mapsto> ''https://wordpress.com/example-150x150.gif'']"
    and d: "maxWidth ?o = Some 100"
    by (simp_all add: example_media_def example_options_def)
  show "thumbnails example_media =
       Some [''thumbnail'' \<mapsto> ''https://wordpress.com/example-150x150.gif''] \<and>
     maxWidth ?o = Some 100 \<and>
     url L (Some example_media) (Some ?o) = Some (Inherited ''constructor'') \<and>
     url_part_000 L (Some example_media) (Some ?o) = Some (Inherited ''constructor'') \<and>
     url L (Some example_media) (Some ?o) \<noteq>
       Some (Url (resize_image_url L ''https://wordpress.com/example.gif'' (W 100)))"
    using a b c d by simp
qed

text \<open>
  \<^bold>\<open>C10.\<close> For transient media, both copies of \<^verbatim>\<open>url\<close> return \<^verbatim>\<open>media.URL\<close> as it is,
  whatever the options: no thumbnail, maxWidth, resize or photon handling takes place,
  and an absent URL gives \<^verbatim>\<open>undefined\<close>.
\<close>

theorem url_transient:
  assumes "transient m"
  shows "url L (Some m) given = map_option Url (URL m) \<and>
         url_part_000 L (Some m) given = map_option Url (URL m)"
  using assms by (simp add: url_def url_part_000_def)

theorem url_transient_witness:
  "\<forall>L.
     transient (example_media\<lparr>transient := True\<rparr>) \<and>
     url L (Some (example_media\<lparr>transient := True\<rparr>)) (Some example_options) =
       Some (Url ''https://wordpress.com/example.gif'') \<and>
     url_part_000 L (Some (example_media\<lparr>transient := True\<rparr>))
       (Some (example_options\<lparr>photon := True\<rparr>)) =
       Some (Url ''https://wordpress.com/example.gif'') \<and>
     url L (Some (example_media\<lparr>transient := True\<rparr>))
       (Some (example_options\<lparr>size_option := Some ''constructor''\<rparr>)) =
       Some (Url ''https://wordpress.com/example.gif'') \<and>
     transient (bare_media\<lparr>transient := True\<rparr>) \<and>
     url L (Some (bare_media\<lparr>transient := True\<rparr>)) (Some example_options) = None \<and>
     url L (Some (bare_media\<lparr>transient := True\<rparr>)) None = None"
proof
  fix L
  have t1: "transient (example_media\<lparr>transient := True\<rparr>)"
    and t2: "transient (bare_media\<lparr>transient := True\<rparr>)"
    by simp_all
  have u1: "URL (example_media\<lparr>transient := True\<rparr>) = Some ''https://wordpress.com/example.gif''"
    and u2: "URL (bare_media\<lparr>transient := True\<rparr>) = None"
    by (simp_all add: example_media_def bare_media_def)
  show "transient (example_media\<lparr>transient := True\<rparr>) \<and>
     url L (Some (example_media\<lparr>transient := True\<rparr>)) (Some example_options) =
       Some (Url ''https://wordpress.com/example.gif'') \<and>
     url_part_000 L (Some (example_media\<lparr>transient := True\<rparr>))
       (Some (example_options\<lparr>photon := True\<rparr>)) =
       Some (Url ''https://wordpress.com/example.gif'') \<and>
     url L (Some (example_media\<lparr>transient := True\<rparr>))
       (Some (example_options\<lparr>size_option := Some ''constructor''\<rparr>)) =
       Some (Url ''https://wordpress.com/example.gif'') \<and>
     transient (bare_media\<lparr>transient := True\<rparr>) \<and>
     url L (Some (bare_media\<lparr>transient := True\<rparr>)) (Some example_options) = None \<and>
     url L (Some (bare_media\<lparr>transient := True\<rparr>)) None = None"
    using url_transient [OF t1, of L "Some example_options"]
      url_transient [OF t1, of L "Some (example_options\<lparr>photon := True\<rparr>)"]
      url_transient [OF t1, of L "Some (example_options\<lparr>size_option := Some ''constructor''\<rparr>)"]
      url_transient [OF t2, of L "Some example_options"]
      url_transient [OF t2, of L None]
    unfolding u1 u2 using t1 t2 by simp
qed

subsection \<open>The claims about getFileExtension and getMimeType\<close>

text \<open>
  \<^bold>\<open>C8\<close> claims that \<^verbatim>\<open>getFileExtension\<close> returns the extension in lowercase and returns
  \<^verbatim>\<open>undefined\<close> when there is none. Neither holds. For the media object
  \<^verbatim>\<open>{ extension: 'GIF' }\<close> the result is \<^verbatim>\<open>GIF\<close>, whatever the libraries do (they are
  not called), and that is not its lowercase form. For the string \<^verbatim>\<open>README\<close>, in which
  no extension can be found, the result is never \<^verbatim>\<open>undefined\<close>.
\<close>

theorem getFileExtension_counterexample:
  "(\<forall>L. getFileExtension L (Some (MObject (bare_media\<lparr>extension := Some ''GIF''\<rparr>))) =
          Inr (Some ''GIF'')) \<and>
   toLowerCase ''GIF'' = ''gif'' \<and>
   ''GIF'' \<noteq> ''gif'' \<and>
   (\<forall>L. getFileExtension L (Some (MString ''README'')) \<noteq> Inr None)"
proof -
  have "\<not> falsy_media (Some (MString ''README''))"
    by (simp add: falsy_media_def)
  then have "\<forall>L. getFileExtension L (Some (MString ''README'')) \<noteq> Inr None"
    unfolding getFileExtension_undefined_iff by blast
  moreover
  have "\<forall>L. getFileExtension L (Some (MObject (bare_media\<lparr>extension := Some ''GIF''\<rparr>))) =
          Inr (Some ''GIF'')"
    by (simp add: truthy_str_def)
  ultimately show ?thesis
    by (simp add: toLowerCase_GIF)
qed

text \<open>
  \<^bold>\<open>C8, amended.\<close> \<^verbatim>\<open>getFileExtension\<close> returns \<^verbatim>\<open>undefined\<close> exactly when its argument
  is falsy. Otherwise it returns the extension as it is derived, its case unchanged: the
  truthy \<^verbatim>\<open>extension\<close> field of a media object as it is; else what
  \<^verbatim>\<open>path.extname\<close> answers, less its first character, for the string (for its pathname
  when the string is a URI), for the name of the File, or for the pathname of
  \<^verbatim>\<open>media.URL || media.file || media.guid || ""\<close>.
\<close>

theorem getFileExtension_derivation:
  "(getFileExtension L media = Inr None \<longleftrightarrow> falsy_media media) \<and>
   (truthy_str (extension m) \<longrightarrow>
      getFileExtension L (Some (MObject m)) = Inr (extension m)) \<and>
   (s \<noteq> [] \<and> extname L (if isUri L s then parse_pathname L s else Some s) = Inr dotted \<longrightarrow>
      getFileExtension L (Some (MString s)) = Inr (Some (drop 1 dotted))) \<and>
   (extname L (Some (name f)) = Inr dotted \<longrightarrow>
      getFileExtension L (Some (MFile f)) = Inr (Some (drop 1 dotted))) \<and>
   (\<not> truthy_str (extension m) \<and>
    extname L
      (Some (or_str
         (parse_pathname L (or_str (URL m) (or_str (file_field m) (or_str (guid m) [])))) [])) =
      Inr dotted \<longrightarrow>
      getFileExtension L (Some (MObject m)) = Inr (Some (drop 1 dotted)))"
  by (simp add: getFileExtension_undefined_iff extension_of_def slice1_def Let_def)

theorem getFileExtension_derivation_witness:
  "getFileExtension docstring_libs None = Inr None \<and>
   getFileExtension docstring_libs (Some (MString [])) = Inr None \<and>
   getFileExtension docstring_libs (Some (MObject (bare_media\<lparr>extension := Some ''GIF''\<rparr>))) =
     Inr (Some ''GIF'') \<and>
   getFileExtension docstring_libs (Some (MString ''example.gif'')) = Inr (Some ''gif'') \<and>
   getFileExtension docstring_libs (Some (MString ''https://wordpress.com/example.gif'')) =
     Inr (Some ''gif'') \<and>
   getFileExtension docstring_libs (Some (MFile \<lparr>name = ''example.gif'', type = ''image/gif''\<rparr>)) =
     Inr (Some ''gif'') \<and>
   getFileExtension docstring_libs (Some (MObject example_media)) = Inr (Some ''gif'') \<and>
   getFileExtension docstring_libs (Some (MObject bare_media)) = Inr (Some [])"
proof -
  let ?L = docstring_libs
  let ?G = "bare_media\<lparr>extension := Some ''GIF''\<rparr>"
  let ?F = "\<lparr>name = ''example.gif'', type = ''image/gif''\<rparr>"
  note T = getFileExtension_derivation [where L = ?L]
  have a: "getFileExtension ?L None = Inr None"
    using T [where media = None] by (simp add: falsy_media_def)
  have b: "getFileExtension ?L (Some (MString [])) = Inr None"
    using T [where media = "Some (MString [])"] by (simp add: falsy_media_def)
  have "truthy_str (extension ?G)"
    by (simp add: truthy_str_def)
  with T [where m = ?G]
  have c: "getFileExtension ?L (Some (MObject ?G)) = Inr (Some ''GIF'')"
    by simp
  have d: "getFileExtension ?L (Some (MString ''example.gif'')) = Inr (Some ''gif'')"
    using T [where s = "''example.gif''" and dotted = "''.gif''"]
    by (simp add: docstring_isUri docstring_extname)
  have e: "getFileExtension ?L (Some (MString ''https://wordpress.com/example.gif'')) =
             Inr (Some ''gif'')"
    using T [where s = "''https://wordpress.com/example.gif''" and dotted = "''.gif''"]
    by (simp add: docstring_isUri docstring_pathname docstring_extname)
  have f: "getFileExtension ?L (Some (MFile ?F)) = Inr (Some ''gif'')"
    using T [where f = ?F and dotted = "''.gif''"]
    by (simp add: docstring_extname)
  have g: "getFileExtension ?L (Some (MObject example_media)) = Inr (Some ''gif'')"
    using T [where m = example_media and dotted = "''.gif''"]
    by (simp add: example_media_def truthy_str_def or_str_def docstring_pathname docstring_extname)
  have h: "getFileExtension ?L (Some (MObject bare_media)) = Inr (Some [])"
    using T [where m = bare_media and dotted = "[]"]
    by (simp add: bare_media_def truthy_str_def or_str_def docstring_pathname docstring_extname)
  from a b c d e f g h show ?thesis by blast
qed

text \<open>
  \<^bold>\<open>C9\<close> claims that \<^verbatim>\<open>getMimeType\<close> returns \<^verbatim>\<open>undefined\<close> whenever the derived
  extension is not in the table. The media object
  \<^verbatim>\<open>{ extension: 'foo', mime_type: 'application/x-foo' }\<close> has the derived extension
  \<^verbatim>\<open>foo\<close>, which the table does not hold, and \<^verbatim>\<open>getMimeType\<close> returns its
  \<^verbatim>\<open>mime_type\<close>.
\<close>

theorem getMimeType_counterexample:
  "\<forall>L.
     getFileExtension L
       (Some (MObject (bare_media\<lparr>extension := Some ''foo'', mime_type := Some ''application/x-foo''\<rparr>))) =
       Inr (Some ''foo'') \<and>
     docstring_MimeTypes (toLowerCase ''foo'') = None \<and>
     getMimeType L docstring_MimeTypes
       (Some (MObject (bare_media\<lparr>extension := Some ''foo'', mime_type := Some ''application/x-foo''\<rparr>))) =
       Inr (Some ''application/x-foo'')"
  by (simp add: truthy_str_def toLowerCase_foo docstring_MimeTypes_def)

text \<open>
  \<^bold>\<open>C9, amended.\<close> For media that is neither a File nor an object with a truthy
  \<^verbatim>\<open>mime_type\<close>, and whose extension \<^verbatim>\<open>getFileExtension\<close> returns: when the extension
  is absent or empty, or its lowercase form is not a key of the table, \<^verbatim>\<open>getMimeType\<close>
  returns \<^verbatim>\<open>undefined\<close> and does not throw; when the lowercase form is a key of the
  table, it returns the table's MIME type. A truthy \<^verbatim>\<open>mime_type\<close> is returned as it is,
  a File gives its \<^verbatim>\<open>type\<close>, and absent media gives \<^verbatim>\<open>undefined\<close>.
\<close>

theorem getMimeType_by_extension:
  "(\<not> declares_mime_type media \<and> getFileExtension L media = Inr ext \<and> \<not> truthy_str ext \<longrightarrow>
      getMimeType L T media = Inr None) \<and>
   (\<not> declares_mime_type media \<and> getFileExtension L media = Inr (Some e) \<and> e \<noteq> [] \<and>
    T (toLowerCase e) = None \<longrightarrow>
      getMimeType L T media = Inr None) \<and>
   (\<not> declares_mime_type media \<and> getFileExtension L media = Inr (Some e) \<and> e \<noteq> [] \<and>
    T (toLowerCase e) = Some t \<longrightarrow>
      getMimeType L T media = Inr (Some t)) \<and>
   (truthy_str (mime_type m) \<longrightarrow> getMimeType L T (Some (MObject m)) = Inr (mime_type m)) \<and>
   getMimeType L T (Some (MFile f)) = Inr (Some (type f)) \<and>
   getMimeType L T None = Inr None"
proof -
  have by_ext: "getMimeType L T media =
      Inr (case x of None \<Rightarrow> None | Some e \<Rightarrow> if e = [] then None else T (toLowerCase e))"
    if "\<not> declares_mime_type media" and "getFileExtension L media = Inr x" for x
  proof (cases "falsy_media media")
    case True
    then have "getFileExtension L media = Inr None"
      by (simp add: getFileExtension_undefined_iff)
    with that(2) have "x = None" by simp
    with True that(1) show ?thesis
      by (simp add: getMimeType_undeclared)
  next
    case False
    with that show ?thesis
      by (simp add: getMimeType_undeclared mimeTypeByExtension_result)
  qed
  have "getMimeType L T media = Inr None"
    if "\<not> declares_mime_type media" and "getFileExtension L media = Inr ext"
      and "\<not> truthy_str ext"
    using by_ext [OF that(1,2)] that(3) by (simp add: truthy_str_def split: option.splits)
  moreover have "getMimeType L T media = Inr (T (toLowerCase e))"
    if "\<not> declares_mime_type media" and "getFileExtension L media = Inr (Some e)"
      and "e \<noteq> []"
    using by_ext [OF that(1,2)] that(3) by simp
  moreover have "truthy_str (mime_type m) \<longrightarrow>
      getMimeType L T (Some (MObject m)) = Inr (mime_type m)"
    by simp
  ultimately show ?thesis
    by simp
qed

theorem getMimeType_by_extension_witness:
  "getMimeType docstring_libs docstring_MimeTypes (Some (MString ''example.gif'')) =
     Inr (Some ''image/gif'') \<and>
   getMimeType docstring_libs docstring_MimeTypes
     (Some (MObject (bare_media\<lparr>extension := Some ''GIF''\<rparr>))) = Inr (Some ''image/gif'') \<and>
   getMimeType docstring_libs docstring_MimeTypes
     (Some (MObject (bare_media\<lparr>extension := Some ''foo''\<rparr>))) = Inr None \<and>
   getMimeType docstring_libs docstring_MimeTypes (Some (MObject bare_media)) = Inr None \<and>
   getMimeType docstring_libs docstring_MimeTypes
     (Some (MObject (bare_media\<lparr>mime_type := Some ''image/gif''\<rparr>))) = Inr (Some ''image/gif'') \<and>
   getMimeType docstring_libs docstring_MimeTypes
     (Some (MFile \<lparr>name = ''example.gif'', type = ''image/gif''\<rparr>)) = Inr (Some ''image/gif'')"
proof -
  let ?L = docstring_libs
  let ?T = docstring_MimeTypes
  let ?G = "bare_media\<lparr>extension := Some ''GIF''\<rparr>"
  let ?foo = "bare_media\<lparr>extension := Some ''foo''\<rparr>"
  let ?M = "bare_media\<lparr>mime_type := Some ''image/gif''\<rparr>"
  let ?F = "\<lparr>name = ''example.gif'', type = ''image/gif''\<rparr>"
  note T = getMimeType_by_extension [where L = ?L and T = ?T]
  have table: "?T ''gif'' = Some ''image/gif''" "?T ''foo'' = None"
    by (simp_all add: docstring_MimeTypes_def)
  have und: "\<not> declares_mime_type (Some (MString ''example.gif''))"
    "\<not> declares_mime_type (Some (MObject ?G))"
    "\<not> declares_mime_type (Some (MObject ?foo))"
    "\<not> declares_mime_type (Some (MObject bare_media))"
    by (simp_all add: declares_mime_type_def truthy_str_def bare_media_def)
  have ext: "getFileExtension ?L (Some (MString ''example.gif'')) = Inr (Some ''gif'')"
    "getFileExtension ?L (Some (MObject ?G)) = Inr (Some ''GIF'')"
    "getFileExtension ?L (Some (MObject ?foo)) = Inr (Some ''foo'')"
    "getFileExtension ?L (Some (MObject bare_media)) = Inr (Some [])"
    by (simp_all add: truthy_str_def or_str_def bare_media_def extension_of_def slice1_def
        docstring_isUri docstring_extname docstring_pathname)
  have a: "getMimeType ?L ?T (Some (MString ''example.gif'')) = Inr (Some ''image/gif'')"
    using T [where media = "Some (MString ''example.gif'')" and e = "''gif''"
        and t = "''image/gif''"] und(1) ext(1) table(1)
    by (simp add: toLowerCase_gif)
  have b: "getMimeType ?L ?T (Some (MObject ?G)) = Inr (Some ''image/gif'')"
    using T [where media = "Some (MObject ?G)" and e = "''GIF''" and t = "''image/gif''"]
      und(2) ext(2) table(1)
    by (simp add: toLowerCase_GIF)
  have c: "getMimeType ?L ?T (Some (MObject ?foo)) = Inr None"
    using T [where media = "Some (MObject ?foo)" and e = "''foo''"] und(3) ext(3) table(2)
    by (simp add: toLowerCase_foo)
  have d: "getMimeType ?L ?T (Some (MObject bare_media)) = Inr None"
    using T [where media = "Some (MObject bare_media)" and ext = "Some []"] und(4) ext(4)
    by (simp add: truthy_str_def)
  have "truthy_str (mime_type ?M)"
    by (simp add: truthy_str_def)
  with T [where m = ?M]
  have e: "getMimeType ?L ?T (Some (MObject ?M)) = Inr (Some ''image/gif'')"
    by simp
  have f: "getMimeType ?L ?T (Some (MFile ?F)) = Inr (Some ''image/gif'')"
    using T [where f = ?F] by simp
  from a b c d e f show ?thesis by blast
qed

end
